theory Spec2Isabelle
  imports Main "HOL-Library.Word"
begin

section \<open>The \<open>/generate\<close> endpoint of \<open>vllm/entrypoints/api_server.py\<close>\<close>

text \<open>
  The module has one request handler, \<open>LanguageModel.generate\<close>, with two nested
  functions (\<open>stream_results\<close>, \<open>abort_request\<close>). The handler is modelled as a
  function from what it reads (the decoded request body, the answers of the transport to
  \<open>is_disconnected\<close>, the collaborators held by \<open>self\<close>) to what it produces: the
  exception it raises or the response object it returns, together with the list of calls it
  made on the engine and on the transport, in the order it made them.

  A Python \<open>str\<close> is a \<open>string\<close>; one \<open>char\<close> stands for one code point below 256.
\<close>

subsection \<open>Decoded JSON, Python dictionaries and exceptions\<close>

text \<open>
  What \<open>await request.json()\<close> can return. A Python \<open>float\<close> is kept as the 64 bits of
  its IEEE double; a \<open>dict\<close> is the list of its items in insertion order.
\<close>

datatype json =
    JNull
  | JBool bool
  | JInt int
  | JFloat "64 word"
  | JStr string
  | JArr "json list"
  | JObj "(string \<times> json) list"

type_synonym dict = "(string \<times> json) list"

datatype error =
    JSONDecodeError
  | KeyError string
  | TypeError string
  | AttributeError string
  | ValueError string
  | AssertionError

text \<open>
  The truth value Python gives to a decoded JSON value in \<open>if stream:\<close>. A float is
  false exactly when it is \<open>0.0\<close> or \<open>-0.0\<close>, that is when all bits but the sign are zero.
\<close>

fun truthy :: "json \<Rightarrow> bool" where
  "truthy JNull = False"
| "truthy (JBool b) = b"
| "truthy (JInt n) = (n \<noteq> 0)"
| "truthy (JFloat w) = (take_bit 63 w \<noteq> 0)"
| "truthy (JStr s) = (s \<noteq> [])"
| "truthy (JArr xs) = (xs \<noteq> [])"
| "truthy (JObj d) = (d \<noteq> [])"

definition dict_del :: "string \<Rightarrow> dict \<Rightarrow> dict" where
  "dict_del k d = filter (\<lambda>item. fst item \<noteq> k) d"

text \<open>
  \<open>request_dict.pop(k)\<close>: on a dict, the value of the key and the dict without it, or
  \<open>KeyError\<close>; a list has a \<open>pop\<close> that refuses a \<open>str\<close> argument; the other decoded
  values have no \<open>pop\<close> at all.
\<close>

definition pop :: "json \<Rightarrow> string \<Rightarrow> error + (json \<times> dict)" where
  "pop request_dict k =
     (case request_dict of
        JObj d \<Rightarrow>
          (case map_of d k of
             None \<Rightarrow> Inl (KeyError k)
           | Some v \<Rightarrow> Inr (v, dict_del k d))
      | JArr xs \<Rightarrow> Inl (TypeError ''str object cannot be interpreted as an integer'')
      | _ \<Rightarrow> Inl (AttributeError ''pop''))"

text \<open>\<open>request_dict.pop(k, default)\<close> on a dict: never raises.\<close>

definition pop_default :: "dict \<Rightarrow> string \<Rightarrow> json \<Rightarrow> json \<times> dict" where
  "pop_default d k dflt =
     (case map_of d k of
        None \<Rightarrow> (dflt, d)
      | Some v \<Rightarrow> (v, dict_del k d))"

subsection \<open>The engine's outputs\<close>

text \<open>
  Modelled from the spec: the classes \<open>RequestOutput\<close> and \<open>CompletionOutput\<close> are
  declared in the engine package, which is not part of the source at hand. The spec gives
  them as \<open>{ prompt: string, outputs: ordered sequence of { text: string } }\<close>; the handler
  reads exactly these fields (\<open>text\<close> is \<open>out_text\<close> here).
\<close>

record completion_output =
  out_text :: string

record request_output =
  prompt :: string
  outputs :: "completion_output list"

subsection \<open>Serialisation of a chunk\<close>

type_synonym byte = "8 word"

text \<open>The value bound to \<open>ret\<close>: a dict from \<open>str\<close> to lists of \<open>str\<close>.\<close>

type_synonym payload = "(string \<times> string list) list"

definition hex_digit :: "nat \<Rightarrow> char" where
  "hex_digit n = ''0123456789abcdef'' ! n"

text \<open>
  \<open>json.dumps\<close> with its defaults (\<open>ensure_ascii=True\<close>, separators \<open>', '\<close> and
  \<open>': '\<close>) on such a value. Inside a string the quote, the backslash and everything outside
  the printable ASCII range \<open>0x20..0x7E\<close> is escaped; the five short escapes are used
  where they exist, \<open>\u00XX\<close> otherwise.
\<close>

definition escape_char :: "char \<Rightarrow> string" where
  "escape_char c =
     (if c = CHR 0x22 then [CHR 0x5C, CHR 0x22]
      else if c = CHR 0x5C then [CHR 0x5C, CHR 0x5C]
      else if c = CHR 0x08 then [CHR 0x5C, CHR ''b'']
      else if c = CHR 0x0C then [CHR 0x5C, CHR ''f'']
      else if c = CHR 0x0A then [CHR 0x5C, CHR ''n'']
      else if c = CHR 0x0D then [CHR 0x5C, CHR ''r'']
      else if c = CHR 0x09 then [CHR 0x5C, CHR ''t'']
      else if 0x20 \<le> (of_char c :: nat) \<and> (of_char c :: nat) \<le> 0x7E then [c]
      else [CHR 0x5C, CHR ''u'', CHR ''0'', CHR ''0'',
            hex_digit ((of_char c :: nat) div 16), hex_digit ((of_char c :: nat) mod 16)])"

definition encode_basestring_ascii :: "string \<Rightarrow> string" where
  "encode_basestring_ascii s = [CHR 0x22] @ concat (map escape_char s) @ [CHR 0x22]"

fun join :: "string \<Rightarrow> string list \<Rightarrow> string" where
  "join sep [] = []"
| "join sep [x] = x"
| "join sep (x # y # ys) = x @ sep @ join sep (y # ys)"

definition json_dumps :: "payload \<Rightarrow> string" where
  "json_dumps ret =
     ''{'' @ join '', ''
        (map (\<lambda>(k, v). encode_basestring_ascii k @ '': '' @
                ''['' @ join '', '' (map encode_basestring_ascii v) @ '']'') ret)
     @ ''}''"

text \<open>The printable ASCII characters, which is all that \<open>json.dumps\<close> lets through.\<close>

abbreviation printable :: "char \<Rightarrow> bool" where
  "printable c \<equiv> 0x20 \<le> (of_char c :: nat) \<and> (of_char c :: nat) \<le> 0x7E"

text \<open>\<open>s.encode("utf-8")\<close> for code points below 256: one byte below 128, two above.\<close>

definition encode_char :: "char \<Rightarrow> byte list" where
  "encode_char c =
     (let n = (of_char c :: nat)
      in if n < 0x80 then [of_nat n]
         else [of_nat (0xC0 + n div 64), of_nat (0x80 + n mod 64)])"

definition encode_utf8 :: "string \<Rightarrow> byte list" where
  "encode_utf8 s = concat (map encode_char s)"

subsection \<open>Calls on the collaborators, responses\<close>

text \<open>
  The calls the handler makes on the engine (\<open>self.engine.generate\<close>,
  \<open>self.engine.abort\<close>, one step of \<open>async for\<close> on the results generator, with the
  element it got or \<open>None\<close> at exhaustion) and on the transport
  (\<open>request.is_disconnected()\<close> with its answer).
\<close>

datatype 'sp event =
    Engine_generate json 'sp string
  | Engine_abort string
  | Anext "request_output option"
  | Is_disconnected bool

text \<open>
  The three response objects the handler builds. A streaming response holds the chunks its
  generator yields, in order (a consumer that stops after \<open>k\<close> chunks has seen the first
  \<open>k\<close>), and its background tasks; a task is the list of calls it makes when it runs.
\<close>

datatype 'sp response =
    JSONResponse payload
  | Response nat
  | StreamingResponse "byte list list" "'sp event list list"

fun status_code :: "'sp response \<Rightarrow> nat" where
  "status_code (JSONResponse ret) = 200"
| "status_code (Response n) = n"
| "status_code (StreamingResponse chunks background) = 200"

fun content :: "'sp response \<Rightarrow> payload option" where
  "content (JSONResponse ret) = Some ret"
| "content (Response n) = None"
| "content (StreamingResponse chunks background) = None"

text \<open>
  What the handler reads: the request (the outcome of \<open>await request.json()\<close>; the answer
  of the \<open>n\<close>-th \<open>await request.is_disconnected()\<close>, counted from 0) and, through
  \<open>self\<close> and the module, the constructor \<open>SamplingParams\<close>, the identifier that
  \<open>random_uuid()\<close> returns for this request, and the sequence of outputs the engine's
  generator yields for a submission. The sequence is finite: the blocking path returns only
  once it is exhausted.
\<close>

record request =
  request_json :: "error + json"
  is_disconnected :: "nat \<Rightarrow> bool"

record 'sp language_model =
  SamplingParams :: "dict \<Rightarrow> error + 'sp"
  random_uuid :: string
  engine_generate :: "json \<Rightarrow> 'sp \<Rightarrow> string \<Rightarrow> request_output list"

subsection \<open>The handler\<close>

text \<open>Lines 45-52: one chunk for each element of the results generator.\<close>

fun stream_results :: "request_output list \<Rightarrow> byte list list" where
  "stream_results [] = []"
| "stream_results (request_output # results_generator) =
     (let text_outputs = map (\<lambda>output. prompt request_output @ out_text output)
                             (outputs request_output);
          ret = [(''text'', text_outputs)]
      in encode_utf8 (json_dumps ret @ [CHR 0x00]) # stream_results results_generator)"

text \<open>Lines 54-55.\<close>

definition abort_request :: "string \<Rightarrow> 'sp event list" where
  "abort_request request_id = [Engine_abort request_id]"

text \<open>
  Lines 64-70, the loop of the non-streaming case: \<open>Inl\<close> is the early return of line 69,
  \<open>Inr\<close> the value of \<open>final_output\<close> when the generator is exhausted. \<open>n\<close> counts the
  liveness checks made so far.
\<close>

fun generate_loop ::
  "(nat \<Rightarrow> bool) \<Rightarrow> string \<Rightarrow> nat \<Rightarrow> request_output option \<Rightarrow> request_output list
   \<Rightarrow> ('sp response + request_output option) \<times> 'sp event list" where
  "generate_loop disconnected request_id n final_output [] = (Inr final_output, [Anext None])"
| "generate_loop disconnected request_id n final_output (request_output # results_generator) =
     (if disconnected n
      then (Inl (Response 499),
            [Anext (Some request_output), Is_disconnected True, Engine_abort request_id])
      else (case generate_loop disconnected request_id (Suc n) (Some request_output)
                   results_generator of
              (r, evs) \<Rightarrow> (r, Anext (Some request_output) # Is_disconnected False # evs)))"

text \<open>Lines 37-76.\<close>

definition generate ::
  "'sp language_model \<Rightarrow> request \<Rightarrow> (error + 'sp response) \<times> 'sp event list" where
  "generate self request =
     (case request_json request of
        Inl e \<Rightarrow> (Inl e, [])
      | Inr request_dict \<Rightarrow>
     (case pop request_dict ''prompt'' of
        Inl e \<Rightarrow> (Inl e, [])
      | Inr (prompt_arg, request_dict1) \<Rightarrow>
     (case pop_default request_dict1 ''stream'' (JBool False) of
        (stream, request_dict2) \<Rightarrow>
     (case SamplingParams self request_dict2 of
        Inl e \<Rightarrow> (Inl e, [])
      | Inr sampling_params \<Rightarrow>
     (let request_id = random_uuid self;
          results_generator = engine_generate self prompt_arg sampling_params request_id;
          submitted = [Engine_generate prompt_arg sampling_params request_id]
      in if truthy stream
         then (Inr (StreamingResponse (stream_results results_generator)
                      [abort_request request_id]), submitted)
         else
           (case generate_loop (is_disconnected request) request_id 0 None results_generator of
              (Inl response, evs) \<Rightarrow> (Inr response, submitted @ evs)
            | (Inr None, evs) \<Rightarrow> (Inl AssertionError, submitted @ evs)
            | (Inr (Some final_output), evs) \<Rightarrow>
                (let text_outputs = map (\<lambda>output. prompt final_output @ out_text output)
                                        (outputs final_output);
                     ret = [(''text'', text_outputs)]
                 in (Inr (JSONResponse ret), submitted @ evs))))))))"

subsection \<open>The engine's abort\<close>

text \<open>
  Modelled from the spec: \<open>AsyncLLMEngine.abort\<close> belongs to the engine package and is
  not part of the source at hand; the handler only calls it (lines 55 and 68). The spec
  gives it as \<open>abort(id: RequestId)\<close>, which "fails silently if id unknown/already
  finished", and asks of cancellation that it be "safe to call zero, one, or many times"
  and a no-op once the session has completed. The engine's state is the set of request ids
  it is still generating for; aborting removes the id and never raises.
\<close>

definition engine_abort :: "string \<Rightarrow> string set \<Rightarrow> error + string set" where
  "engine_abort request_id running = Inr (running - {request_id})"

text \<open>\<open>n\<close> cancellations of the same request in a row, stopping at the first that raises.\<close>

primrec cancel_times :: "nat \<Rightarrow> string \<Rightarrow> string set \<Rightarrow> error + string set" where
  "cancel_times 0 request_id running = Inr running"
| "cancel_times (Suc n) request_id running =
     (case engine_abort request_id running of
        Inl e \<Rightarrow> Inl e
      | Inr running' \<Rightarrow> cancel_times n request_id running')"

subsection \<open>A concrete deployment and concrete requests\<close>

text \<open>
  An engine that echoes the prompt and yields two cumulative outputs (none for the empty
  prompt, one for a prompt that is not a string), and a \<open>SamplingParams\<close> that keeps its
  keyword arguments and rejects \<open>n=0\<close> as the real constructor does.
\<close>

definition example_engine :: "json \<Rightarrow> dict \<Rightarrow> string \<Rightarrow> request_output list" where
  "example_engine p sampling_params request_id =
     (case p of
        JStr s \<Rightarrow>
          (if s = [] then []
           else [\<lparr>prompt = s, outputs = [\<lparr>out_text = '' wor''\<rparr>]\<rparr>,
                 \<lparr>prompt = s, outputs = [\<lparr>out_text = '' world''\<rparr>]\<rparr>])
      | _ \<Rightarrow> [\<lparr>prompt = ''?'', outputs = [\<lparr>out_text = ''!''\<rparr>]\<rparr>])"

definition example_self :: "dict language_model" where
  "example_self =
     \<lparr>SamplingParams =
        (\<lambda>kwargs. if map_of kwargs ''n'' = Some (JInt 0)
                   then Inl (ValueError ''n must be at least 1'') else Inr kwargs),
      random_uuid = ''id0'',
      engine_generate = example_engine\<rparr>"

definition example_request :: "dict \<Rightarrow> (nat \<Rightarrow> bool) \<Rightarrow> request" where
  "example_request d disconnected =
     \<lparr>request_json = Inr (JObj d), is_disconnected = disconnected\<rparr>"

section \<open>Properties\<close>

subsection \<open>Dictionaries\<close>

lemma dict_del_absent: "map_of d k = None \<Longrightarrow> dict_del k d = d"
  by (induction d) (auto simp: dict_del_def split: if_splits)

lemma map_of_dict_del_other: "k' \<noteq> k \<Longrightarrow> map_of (dict_del k d) k' = map_of d k'"
  by (induction d) (auto simp: dict_del_def)

lemma pop_default_eq:
  "pop_default d k dflt = (case map_of d k of None \<Rightarrow> dflt | Some v \<Rightarrow> v, dict_del k d)"
  by (simp add: pop_default_def dict_del_absent split: option.splits)

lemma dict_del_twice:
  "dict_del ''stream'' (dict_del ''prompt'' d) =
     filter (\<lambda>item. fst item \<noteq> ''prompt'' \<and> fst item \<noteq> ''stream'') d"
  by (simp add: dict_del_def conj_commute)

subsection \<open>The handler on an admitted request\<close>

text \<open>
  Once the body is an object with a \<open>prompt\<close> and the constructor has accepted the other
  keys, lines 41-76 run: the submission, then one of the two modes.
\<close>

lemma generate_admitted:
  assumes "request_json request = Inr (JObj d)"
    and "map_of d ''prompt'' = Some p"
    and "SamplingParams self (dict_del ''stream'' (dict_del ''prompt'' d)) = Inr sp"
  shows "generate self request =
     (if truthy (case map_of d ''stream'' of None \<Rightarrow> JBool False | Some v \<Rightarrow> v)
      then (Inr (StreamingResponse
                  (stream_results (engine_generate self p sp (random_uuid self)))
                  [abort_request (random_uuid self)]),
            [Engine_generate p sp (random_uuid self)])
      else
        (case generate_loop (is_disconnected request) (random_uuid self) 0 None
                (engine_generate self p sp (random_uuid self)) of
           (Inl response, evs) \<Rightarrow> (Inr response, Engine_generate p sp (random_uuid self) # evs)
         | (Inr None, evs) \<Rightarrow> (Inl AssertionError, Engine_generate p sp (random_uuid self) # evs)
         | (Inr (Some final_output), evs) \<Rightarrow>
             (Inr (JSONResponse
                    [(''text'', map (\<lambda>output. prompt final_output @ out_text output)
                                  (outputs final_output))]),
              Engine_generate p sp (random_uuid self) # evs)))"
  using assms
  by (simp add: generate_def pop_def pop_default_eq map_of_dict_del_other Let_def
        split: prod.splits sum.splits option.splits)

subsection \<open>The loop of the non-streaming case\<close>

lemma generate_loop_connected:
  "\<forall>i<length results. \<not> disconnected (n + i) \<Longrightarrow>
   generate_loop disconnected request_id n final_output results =
     (Inr (if results = [] then final_output else Some (last results)),
      concat (map (\<lambda>ro. [Anext (Some ro), Is_disconnected False]) results) @ [Anext None])"
proof (induction results arbitrary: n final_output)
  case Nil
  then show ?case by simp
next
  case (Cons ro rest)
  from Cons.prems have here: "\<not> disconnected n" by force
  from Cons.prems have later: "\<forall>i<length rest. \<not> disconnected (Suc n + i)" by force
  show ?case using here Cons.IH [OF later] by simp
qed

lemma generate_loop_disconnected:
  "k < length results \<Longrightarrow> disconnected (n + k) \<Longrightarrow> \<forall>i<k. \<not> disconnected (n + i) \<Longrightarrow>
   generate_loop disconnected request_id n final_output results =
     (Inl (Response 499),
      concat (map (\<lambda>ro. [Anext (Some ro), Is_disconnected False]) (take k results))
        @ [Anext (Some (results ! k)), Is_disconnected True, Engine_abort request_id])"
proof (induction results arbitrary: n k final_output)
  case Nil
  then show ?case by simp
next
  case (Cons ro rest)
  show ?case
  proof (cases k)
    case 0
    with Cons.prems show ?thesis by simp
  next
    case (Suc j)
    from Cons.prems Suc have here: "\<not> disconnected n" by force
    from Cons.prems Suc have j: "j < length rest" "disconnected (Suc n + j)" by simp_all
    from Cons.prems Suc have before: "\<forall>i<j. \<not> disconnected (Suc n + i)" by force
    show ?thesis using here Suc Cons.IH [OF j before] by simp
  qed
qed

lemma example_kwargs [simp]:
  "SamplingParams example_self kwargs =
     (if map_of kwargs ''n'' = Some (JInt 0)
      then Inl (ValueError ''n must be at least 1'') else Inr kwargs)"
  "random_uuid example_self = ''id0''"
  "engine_generate example_self = example_engine"
  by (simp_all add: example_self_def)

lemma example_request_simps [simp]:
  "request_json (example_request d disconnected) = Inr (JObj d)"
  "is_disconnected (example_request d disconnected) = disconnected"
  by (simp_all add: example_request_def)

section \<open>The non-streaming case\<close>

text \<open>
  Claim C1. For a valid request with \<open>stream\<close> false (or absent), an engine sequence
  with at least one element and a transport that never reports a disconnection, the
  handler returns a JSON response of status 200 whose \<open>text\<close> is
  \<open>[prompt + o.text for o in last.outputs]\<close> for the last element of the sequence,
  \<open>prompt\<close> being that element's own prompt (line 73). The whole sequence is consumed
  (the calls list every element, then the exhaustion), and nothing of the earlier elements
  is in the response.
\<close>

theorem generate_blocking_last_output:
  assumes "request_json request = Inr (JObj d)"
    and "map_of d ''prompt'' = Some p"
    and "SamplingParams self (dict_del ''stream'' (dict_del ''prompt'' d)) = Inr sp"
    and "map_of d ''stream'' = None \<or> map_of d ''stream'' = Some (JBool False)"
    and "engine_generate self p sp (random_uuid self) = results"
    and "results \<noteq> []"
    and "\<forall>n<length results. \<not> is_disconnected request n"
  shows "\<exists>response.
           generate self request =
             (Inr response,
              Engine_generate p sp (random_uuid self)
                # concat (map (\<lambda>ro. [Anext (Some ro), Is_disconnected False]) results)
                @ [Anext None])
         \<and> status_code response = 200
         \<and> content response =
             Some [(''text'', map (\<lambda>output. prompt (last results) @ out_text output)
                                (outputs (last results)))]"
proof -
  have loop: "generate_loop (is_disconnected request) (random_uuid self) 0 None results =
     (Inr (Some (last results)),
      concat (map (\<lambda>ro. [Anext (Some ro), Is_disconnected False]) results) @ [Anext None])"
    using generate_loop_connected [of results "is_disconnected request" 0] assms(6,7) by simp
  show ?thesis
    using assms(4) by (auto simp: generate_admitted [OF assms(1-3)] assms(5) loop)
qed

theorem generate_blocking_last_output_witness:
  "\<exists>response.
     generate example_self
       (example_request
          [(''prompt'', JStr ''Hello''), (''stream'', JBool False), (''temperature'', JFloat 0)]
          (\<lambda>n. False)) =
       (Inr response,
        [Engine_generate (JStr ''Hello'') [(''temperature'', JFloat 0)] ''id0'',
         Anext (Some \<lparr>prompt = ''Hello'', outputs = [\<lparr>out_text = '' wor''\<rparr>]\<rparr>),
         Is_disconnected False,
         Anext (Some \<lparr>prompt = ''Hello'', outputs = [\<lparr>out_text = '' world''\<rparr>]\<rparr>),
         Is_disconnected False,
         Anext None])
   \<and> status_code response = 200
   \<and> content response = Some [(''text'', [''Hello world''])]"
proof -
  let ?d = "[(''prompt'', JStr ''Hello''), (''stream'', JBool False), (''temperature'', JFloat 0)]"
  let ?sp = "[(''temperature'', JFloat 0)]"
  let ?results = "[\<lparr>prompt = ''Hello'', outputs = [\<lparr>out_text = '' wor''\<rparr>]\<rparr>,
                   \<lparr>prompt = ''Hello'', outputs = [\<lparr>out_text = '' world''\<rparr>]\<rparr>]"
  let ?request = "example_request ?d (\<lambda>n. False)"
  have 1: "request_json ?request = Inr (JObj ?d)" by simp
  have 2: "map_of ?d ''prompt'' = Some (JStr ''Hello'')" by simp
  have 3: "SamplingParams example_self (dict_del ''stream'' (dict_del ''prompt'' ?d)) = Inr ?sp"
    by (simp add: dict_del_def)
  have 4: "map_of ?d ''stream'' = None \<or> map_of ?d ''stream'' = Some (JBool False)" by simp
  have 5: "engine_generate example_self (JStr ''Hello'') ?sp (random_uuid example_self) = ?results"
    by (simp add: example_engine_def)
  have 6: "?results \<noteq> []" by simp
  have 7: "\<forall>n<length ?results. \<not> is_disconnected ?request n" by simp
  show ?thesis using generate_blocking_last_output [OF 1 2 3 4 5 6 7] by simp
qed

text \<open>
  Claim C3. In the non-streaming case every iteration of the loop asks the transport
  whether the client is gone before it keeps the element it has just received and before
  it asks the generator for the next one. At the first iteration \<open>k\<close> where the transport
  answers yes, the handler calls the engine's abort with the request id of this request
  and returns a response of status 499 without content; the generator is not asked for
  another element and the element of iteration \<open>k\<close> is dropped.
\<close>

theorem generate_blocking_disconnect:
  assumes "request_json request = Inr (JObj d)"
    and "map_of d ''prompt'' = Some p"
    and "SamplingParams self (dict_del ''stream'' (dict_del ''prompt'' d)) = Inr sp"
    and "map_of d ''stream'' = None \<or> map_of d ''stream'' = Some (JBool False)"
    and "engine_generate self p sp (random_uuid self) = results"
    and "k < length results"
    and "is_disconnected request k"
    and "\<forall>i<k. \<not> is_disconnected request i"
  shows "\<exists>response.
           generate self request =
             (Inr response,
              Engine_generate p sp (random_uuid self)
                # concat (map (\<lambda>ro. [Anext (Some ro), Is_disconnected False]) (take k results))
                @ [Anext (Some (results ! k)), Is_disconnected True,
                   Engine_abort (random_uuid self)])
         \<and> status_code response = 499
         \<and> content response = None"
proof -
  have loop: "generate_loop (is_disconnected request) (random_uuid self) 0 None results =
     (Inl (Response 499),
      concat (map (\<lambda>ro. [Anext (Some ro), Is_disconnected False]) (take k results))
        @ [Anext (Some (results ! k)), Is_disconnected True, Engine_abort (random_uuid self)])"
    using generate_loop_disconnected [of k results "is_disconnected request" 0] assms(6,7,8)
    by simp
  show ?thesis
    using assms(4) by (auto simp: generate_admitted [OF assms(1-3)] assms(5) loop)
qed

theorem generate_blocking_disconnect_witness:
  "\<exists>response.
     generate example_self
       (example_request [(''prompt'', JStr ''Hello''), (''stream'', JBool False)] (\<lambda>n. n = 1)) =
       (Inr response,
        [Engine_generate (JStr ''Hello'') [] ''id0'',
         Anext (Some \<lparr>prompt = ''Hello'', outputs = [\<lparr>out_text = '' wor''\<rparr>]\<rparr>),
         Is_disconnected False,
         Anext (Some \<lparr>prompt = ''Hello'', outputs = [\<lparr>out_text = '' world''\<rparr>]\<rparr>),
         Is_disconnected True,
         Engine_abort ''id0''])
   \<and> status_code response = 499
   \<and> content response = None"
proof -
  let ?d = "[(''prompt'', JStr ''Hello''), (''stream'', JBool False)]"
  let ?results = "[\<lparr>prompt = ''Hello'', outputs = [\<lparr>out_text = '' wor''\<rparr>]\<rparr>,
                   \<lparr>prompt = ''Hello'', outputs = [\<lparr>out_text = '' world''\<rparr>]\<rparr>]"
  let ?request = "example_request ?d (\<lambda>n. n = 1)"
  have 1: "request_json ?request = Inr (JObj ?d)" by simp
  have 2: "map_of ?d ''prompt'' = Some (JStr ''Hello'')" by simp
  have 3: "SamplingParams example_self (dict_del ''stream'' (dict_del ''prompt'' ?d)) = Inr []"
    by (simp add: dict_del_def)
  have 4: "map_of ?d ''stream'' = None \<or> map_of ?d ''stream'' = Some (JBool False)" by simp
  have 5: "engine_generate example_self (JStr ''Hello'') [] (random_uuid example_self) = ?results"
    by (simp add: example_engine_def)
  have 6: "1 < length ?results" by simp
  have 7: "is_disconnected ?request 1" by simp
  have 8: "\<forall>i<1. \<not> is_disconnected ?request i" by simp
  show ?thesis using generate_blocking_disconnect [OF 1 2 3 4 5 6 7 8] by simp
qed

text \<open>
  Claim C6. In the non-streaming case, when the engine's sequence is exhausted without
  having yielded an element (so no liveness check was ever made), the handler does not
  return a response: the assertion of line 72 fails.
\<close>

theorem generate_blocking_empty_result:
  assumes "request_json request = Inr (JObj d)"
    and "map_of d ''prompt'' = Some p"
    and "SamplingParams self (dict_del ''stream'' (dict_del ''prompt'' d)) = Inr sp"
    and "map_of d ''stream'' = None \<or> map_of d ''stream'' = Some (JBool False)"
    and "engine_generate self p sp (random_uuid self) = []"
  shows "generate self request =
           (Inl AssertionError, [Engine_generate p sp (random_uuid self), Anext None])"
  using assms(4,5) by (auto simp: generate_admitted [OF assms(1-3)])

theorem generate_blocking_empty_result_witness:
  "generate example_self (example_request [(''prompt'', JStr []), (''stream'', JBool False)] (\<lambda>n. False)) =
     (Inl AssertionError, [Engine_generate (JStr []) [] ''id0'', Anext None])"
proof -
  let ?d = "[(''prompt'', JStr []), (''stream'', JBool False)]"
  let ?request = "example_request ?d (\<lambda>n. False)"
  have 1: "request_json ?request = Inr (JObj ?d)" by simp
  have 2: "map_of ?d ''prompt'' = Some (JStr [])" by simp
  have 3: "SamplingParams example_self (dict_del ''stream'' (dict_del ''prompt'' ?d)) = Inr []"
    by (simp add: dict_del_def)
  have 4: "map_of ?d ''stream'' = None \<or> map_of ?d ''stream'' = Some (JBool False)" by simp
  have 5: "engine_generate example_self (JStr []) [] (random_uuid example_self) = []"
    by (simp add: example_engine_def)
  show ?thesis using generate_blocking_empty_result [OF 1 2 3 4 5] by simp
qed

section \<open>The streaming case\<close>

subsection \<open>What \<open>json.dumps\<close> and \<open>encode\<close> produce\<close>

lemma hex_digit_printable:
  assumes "n < 16"
  shows "printable (hex_digit n)"
proof -
  have "hex_digit n \<in> set ''0123456789abcdef''"
    unfolding hex_digit_def by (rule nth_mem) (use assms in simp)
  then show ?thesis by auto
qed

lemma of_char_lt_256: "(of_char c :: nat) < 256"
  by (cases c) (simp add: of_char_def)

lemma escape_char_cases:
  "escape_char c \<in> {[CHR 0x5C, CHR 0x22], [CHR 0x5C, CHR 0x5C], [CHR 0x5C, CHR ''b''],
      [CHR 0x5C, CHR ''f''], [CHR 0x5C, CHR ''n''], [CHR 0x5C, CHR ''r''], [CHR 0x5C, CHR ''t'']}
   \<or> (printable c \<and> escape_char c = [c])
   \<or> escape_char c = [CHR 0x5C, CHR ''u'', CHR ''0'', CHR ''0'',
         hex_digit ((of_char c :: nat) div 16), hex_digit ((of_char c :: nat) mod 16)]"
  unfolding escape_char_def by simp

lemma escape_char_printable:
  assumes x: "x \<in> set (escape_char c)"
  shows "printable x"
proof -
  have hi: "printable (hex_digit ((of_char c :: nat) div 16))"
    using of_char_lt_256 [of c] by (intro hex_digit_printable) (simp add: less_mult_imp_div_less)
  have lo: "printable (hex_digit ((of_char c :: nat) mod 16))"
    by (intro hex_digit_printable) simp
  consider
    (short) "escape_char c \<in> {[CHR 0x5C, CHR 0x22], [CHR 0x5C, CHR 0x5C], [CHR 0x5C, CHR ''b''],
      [CHR 0x5C, CHR ''f''], [CHR 0x5C, CHR ''n''], [CHR 0x5C, CHR ''r''], [CHR 0x5C, CHR ''t'']}"
  | (plain) "printable c" "escape_char c = [c]"
  | (hex) "escape_char c = [CHR 0x5C, CHR ''u'', CHR ''0'', CHR ''0'',
         hex_digit ((of_char c :: nat) div 16), hex_digit ((of_char c :: nat) mod 16)]"
    using escape_char_cases [of c] by blast
  then show ?thesis
  proof cases
    case short
    with x show ?thesis by auto
  next
    case plain
    with x show ?thesis by simp
  next
    case hex
    with x have "x \<in> {CHR 0x5C, CHR ''u'', CHR ''0''} \<or> x = hex_digit ((of_char c :: nat) div 16)
       \<or> x = hex_digit ((of_char c :: nat) mod 16)" by auto
    with hi lo show ?thesis by auto
  qed
qed

lemma encode_basestring_ascii_printable:
  "x \<in> set (encode_basestring_ascii s) \<Longrightarrow> printable x"
  unfolding encode_basestring_ascii_def using escape_char_printable by fastforce

lemma join_printable:
  assumes "\<And>x. x \<in> set sep \<Longrightarrow> printable x"
    and "\<And>s x. s \<in> set xs \<Longrightarrow> x \<in> set s \<Longrightarrow> printable x"
    and "x \<in> set (join sep xs)"
  shows "printable x"
  using assms
proof (induction sep xs rule: join.induct)
  case (1 sep)
  then show ?case by simp
next
  case (2 sep y)
  then show ?case by simp
next
  case (3 sep y z zs)
  from "3.prems"(3) have "x \<in> set y \<or> x \<in> set sep \<or> x \<in> set (join sep (z # zs))"
    by auto
  then show ?case
    using "3.IH" "3.prems"(1,2) by (metis list.set_intros(1,2))
qed

lemma json_dumps_printable:
  assumes "x \<in> set (json_dumps ret)"
  shows "printable x"
proof -
  have sep: "\<And>y. y \<in> set '', '' \<Longrightarrow> printable y" by auto
  have strs: "\<And>v y. y \<in> set (join '', '' (map encode_basestring_ascii v)) \<Longrightarrow> printable y"
  proof -
    fix v y assume "y \<in> set (join '', '' (map encode_basestring_ascii v))"
    then show "printable y"
      by (rule join_printable [OF sep, rotated -1])
         (use encode_basestring_ascii_printable in auto)
  qed
  have item: "\<And>k v y. y \<in> set (encode_basestring_ascii k @ '': '' @
                ''['' @ join '', '' (map encode_basestring_ascii v) @ '']'') \<Longrightarrow> printable y"
  proof -
    fix k v y
    assume "y \<in> set (encode_basestring_ascii k @ '': '' @
                ''['' @ join '', '' (map encode_basestring_ascii v) @ '']'')"
    then have "y \<in> set (encode_basestring_ascii k) \<or> y \<in> set '': [''
        \<or> y \<in> set (join '', '' (map encode_basestring_ascii v)) \<or> y = CHR '']''"
      by auto
    then show "printable y"
      using encode_basestring_ascii_printable [of y k] strs [of y v] by auto
  qed
  have items: "\<And>y. y \<in> set (join '', ''
        (map (\<lambda>(k, v). encode_basestring_ascii k @ '': '' @
                ''['' @ join '', '' (map encode_basestring_ascii v) @ '']'') ret)) \<Longrightarrow> printable y"
  proof -
    fix y
    assume "y \<in> set (join '', ''
        (map (\<lambda>(k, v). encode_basestring_ascii k @ '': '' @
                ''['' @ join '', '' (map encode_basestring_ascii v) @ '']'') ret))"
    then show "printable y"
      by (rule join_printable [OF sep, rotated -1]) (use item in auto)
  qed
  from assms have "x = CHR ''{'' \<or> x = CHR ''}'' \<or> x \<in> set (join '', ''
        (map (\<lambda>(k, v). encode_basestring_ascii k @ '': '' @
                ''['' @ join '', '' (map encode_basestring_ascii v) @ '']'') ret))"
    by (auto simp: json_dumps_def)
  then show ?thesis using items [of x] by auto
qed

lemma encode_char_printable:
  assumes "printable c"
  shows "encode_char c = [of_nat (of_char c)]" and "(of_nat (of_char c) :: byte) \<noteq> 0"
proof -
  from assms show "encode_char c = [of_nat (of_char c)]"
    by (simp add: encode_char_def Let_def)
  have "\<not> 2 ^ LENGTH(8) dvd (of_char c :: nat)"
    using assms of_char_lt_256 [of c] by (auto dest: dvd_imp_le)
  then show "(of_nat (of_char c) :: byte) \<noteq> 0"
    by (simp only: word_of_nat_eq_0_iff not_False_eq_True)
qed

lemma encode_utf8_printable:
  "\<forall>c\<in>set s. printable c \<Longrightarrow>
   encode_utf8 s = map (\<lambda>c. of_nat (of_char c)) s \<and> (0::byte) \<notin> set (encode_utf8 s)"
  by (induction s) (auto simp: encode_utf8_def encode_char_printable)

lemma encode_utf8_append: "encode_utf8 (s @ t) = encode_utf8 s @ encode_utf8 t"
  by (simp add: encode_utf8_def)

lemma encode_utf8_NUL: "encode_utf8 [CHR 0x00] = [0]"
  by (simp add: encode_utf8_def encode_char_def)

lemma stream_results_map:
  "stream_results results =
     map (\<lambda>ro. encode_utf8 (json_dumps
                  [(''text'', map (\<lambda>output. prompt ro @ out_text output) (outputs ro))])
               @ [0]) results"
  by (induction results) (simp_all add: Let_def encode_utf8_append encode_utf8_NUL)

text \<open>
  Claim C2. For a valid request with \<open>stream\<close> true the handler returns a streaming
  response whose generator yields one chunk for each element of the engine's sequence, in
  the engine's order (so a consumer that stops after \<open>k\<close> chunks has seen those of the
  first \<open>k\<close> elements); the chunk of an element is the UTF-8 encoding of
  \<open>json.dumps({"text": [element.prompt + o.text for o in element.outputs]})\<close> followed
  by one NUL byte, and that serialisation contains no NUL byte of its own.
\<close>

theorem generate_streaming_chunks:
  assumes "request_json request = Inr (JObj d)"
    and "map_of d ''prompt'' = Some p"
    and "SamplingParams self (dict_del ''stream'' (dict_del ''prompt'' d)) = Inr sp"
    and "map_of d ''stream'' = Some (JBool True)"
    and "engine_generate self p sp (random_uuid self) = results"
  shows "generate self request =
           (Inr (StreamingResponse
                  (map (\<lambda>ro. encode_utf8 (json_dumps
                                [(''text'', map (\<lambda>output. prompt ro @ out_text output)
                                              (outputs ro))])
                             @ [0]) results)
                  [abort_request (random_uuid self)]),
            [Engine_generate p sp (random_uuid self)])
       \<and> (\<forall>ro\<in>set results.
            (0::byte) \<notin> set (encode_utf8 (json_dumps
                                [(''text'', map (\<lambda>output. prompt ro @ out_text output)
                                              (outputs ro))])))"
proof
  show "generate self request =
           (Inr (StreamingResponse
                  (map (\<lambda>ro. encode_utf8 (json_dumps
                                [(''text'', map (\<lambda>output. prompt ro @ out_text output)
                                              (outputs ro))])
                             @ [0]) results)
                  [abort_request (random_uuid self)]),
            [Engine_generate p sp (random_uuid self)])"
    by (simp add: generate_admitted [OF assms(1-3)] assms(4,5) stream_results_map)
  show "\<forall>ro\<in>set results.
            (0::byte) \<notin> set (encode_utf8 (json_dumps
                                [(''text'', map (\<lambda>output. prompt ro @ out_text output)
                                              (outputs ro))]))"
    using encode_utf8_printable json_dumps_printable by blast
qed

theorem generate_streaming_chunks_witness:
  "generate example_self
     (example_request [(''prompt'', JStr ''Hello''), (''stream'', JBool True)] (\<lambda>n. False)) =
     (Inr (StreamingResponse
            [[123, 34, 116, 101, 120, 116, 34, 58, 32, 91, 34,
              72, 101, 108, 108, 111, 32, 119, 111, 114, 34, 93, 125, 0],
             [123, 34, 116, 101, 120, 116, 34, 58, 32, 91, 34,
              72, 101, 108, 108, 111, 32, 119, 111, 114, 108, 100, 34, 93, 125, 0]]
            [[Engine_abort ''id0'']]),
      [Engine_generate (JStr ''Hello'') [] ''id0''])"
proof -
  let ?d = "[(''prompt'', JStr ''Hello''), (''stream'', JBool True)]"
  let ?results = "[\<lparr>prompt = ''Hello'', outputs = [\<lparr>out_text = '' wor''\<rparr>]\<rparr>,
                   \<lparr>prompt = ''Hello'', outputs = [\<lparr>out_text = '' world''\<rparr>]\<rparr>]"
  let ?request = "example_request ?d (\<lambda>n. False)"
  have 1: "request_json ?request = Inr (JObj ?d)" by simp
  have 2: "map_of ?d ''prompt'' = Some (JStr ''Hello'')" by simp
  have 3: "SamplingParams example_self (dict_del ''stream'' (dict_del ''prompt'' ?d)) = Inr []"
    by (simp add: dict_del_def)
  have 4: "map_of ?d ''stream'' = Some (JBool True)" by simp
  have 5: "engine_generate example_self (JStr ''Hello'') [] (random_uuid example_self) = ?results"
    by (simp add: example_engine_def)
  have first: "encode_utf8 (json_dumps [(''text'', [''Hello wor''])]) =
      [123, 34, 116, 101, 120, 116, 34, 58, 32, 91, 34,
       72, 101, 108, 108, 111, 32, 119, 111, 114, 34, 93, 125]"
    by code_simp
  have second: "encode_utf8 (json_dumps [(''text'', [''Hello world''])]) =
      [123, 34, 116, 101, 120, 116, 34, 58, 32, 91, 34,
       72, 101, 108, 108, 111, 32, 119, 111, 114, 108, 100, 34, 93, 125]"
    by code_simp
  show ?thesis
    using generate_streaming_chunks [OF 1 2 3 4 5]
    by (simp add: first second abort_request_def)
qed

section \<open>Admission of a request\<close>

subsection \<open>The handler on a decoded body\<close>

lemma map_of_stream_item:
  "''stream'' \<notin> fst ` set xs \<Longrightarrow> map_of (xs @ (''stream'', v) # ys) ''stream'' = Some v"
  by (simp add: map_add_Some_iff map_of_eq_None_iff)

lemma generate_body:
  "generate self (request\<lparr>request_json := Inr (JObj d)\<rparr>) =
     (case map_of d ''prompt'' of
        None \<Rightarrow> (Inl (KeyError ''prompt''), [])
      | Some p \<Rightarrow>
          (case SamplingParams self (dict_del ''stream'' (dict_del ''prompt'' d)) of
             Inl e \<Rightarrow> (Inl e, [])
           | Inr sp \<Rightarrow>
               (if truthy (case map_of d ''stream'' of None \<Rightarrow> JBool False | Some v \<Rightarrow> v)
                then (Inr (StreamingResponse
                            (stream_results (engine_generate self p sp (random_uuid self)))
                            [abort_request (random_uuid self)]),
                      [Engine_generate p sp (random_uuid self)])
                else
                  (case generate_loop (is_disconnected request) (random_uuid self) 0 None
                          (engine_generate self p sp (random_uuid self)) of
                     (Inl response, evs) \<Rightarrow>
                       (Inr response, Engine_generate p sp (random_uuid self) # evs)
                   | (Inr None, evs) \<Rightarrow>
                       (Inl AssertionError, Engine_generate p sp (random_uuid self) # evs)
                   | (Inr (Some final_output), evs) \<Rightarrow>
                       (Inr (JSONResponse
                              [(''text'', map (\<lambda>output. prompt final_output @ out_text output)
                                            (outputs final_output))]),
                        Engine_generate p sp (random_uuid self) # evs)))))"
proof (cases "map_of d ''prompt''")
  case None
  then show ?thesis by (simp add: generate_def pop_def)
next
  case (Some p)
  show ?thesis
  proof (cases "SamplingParams self (dict_del ''stream'' (dict_del ''prompt'' d))")
    case (Inl e)
    with Some show ?thesis by (simp add: generate_def pop_def pop_default_eq)
  next
    case (Inr sp)
    have "request_json (request\<lparr>request_json := Inr (JObj d)\<rparr>) = Inr (JObj d)" by simp
    from generate_admitted [OF this Some Inr] Some Inr show ?thesis by simp
  qed
qed

subsection \<open>The \<open>prompt\<close> key\<close>

text \<open>
  Against claim C4 as stated: a \<open>prompt\<close> that is not a string is not refused. Line 38
  pops whatever value the key has and line 42 hands it to the engine; here the prompt is
  the number 42, \<open>engine.generate\<close> is called with it and the request succeeds.
\<close>

theorem generate_prompt_not_a_string:
  "generate example_self (example_request [(''prompt'', JInt 42)] (\<lambda>n. False)) =
     (Inr (JSONResponse [(''text'', [''?!''])]),
      [Engine_generate (JInt 42) [] ''id0'',
       Anext (Some \<lparr>prompt = ''?'', outputs = [\<lparr>out_text = ''!''\<rparr>]\<rparr>),
       Is_disconnected False,
       Anext None])"
  by (simp add: generate_def pop_def pop_default_def dict_del_def example_engine_def)

text \<open>
  Claim C4, amended. For every request whose body is a JSON object without the key
  \<open>prompt\<close>, the handler fails at line 38 with \<open>KeyError('prompt')\<close> before anything
  is submitted: it has made no call on the engine. (The type of a prompt that is present is
  not checked by this layer.)
\<close>

theorem generate_missing_prompt:
  assumes "request_json request = Inr (JObj d)"
    and "map_of d ''prompt'' = None"
  shows "generate self request = (Inl (KeyError ''prompt''), [])"
  using assms by (simp add: generate_def pop_def)

theorem generate_missing_prompt_witness:
  "generate example_self
     (example_request [(''stream'', JBool False), (''temperature'', JFloat 0)] (\<lambda>n. False)) =
     (Inl (KeyError ''prompt''), [])"
proof -
  let ?d = "[(''stream'', JBool False), (''temperature'', JFloat 0)]"
  have 1: "request_json (example_request ?d (\<lambda>n. False)) = Inr (JObj ?d)" by simp
  have 2: "map_of ?d ''prompt'' = None" by simp
  show ?thesis using generate_missing_prompt [OF 1 2, of example_self] by simp
qed

subsection \<open>The sampling options\<close>

text \<open>
  Against claim C7 as stated: when the constructor rejects the options, the handler's
  outcome is the exception the constructor raised. The handler catches nothing and builds
  no response for this case, so there is no status and no JSON error body of its making.
\<close>

theorem generate_rejection_is_no_response:
  "fst (generate example_self
     (example_request [(''prompt'', JStr ''Hello''), (''n'', JInt 0)] (\<lambda>n. False))) =
     Inl (ValueError ''n must be at least 1'')"
  by (simp add: generate_def pop_def pop_default_def dict_del_def)

text \<open>
  Claim C7, amended. After \<open>prompt\<close> and \<open>stream\<close> have been removed, the remaining
  items of the body, unchanged and in their order, are the keyword arguments of
  \<open>SamplingParams\<close>. If the constructor raises, the handler raises that same exception
  (it builds no error response of its own) and the engine's \<open>generate\<close> is never called.
\<close>

theorem generate_rejected_sampling_params:
  assumes "request_json request = Inr (JObj d)"
    and "map_of d ''prompt'' = Some p"
    and "SamplingParams self
           (filter (\<lambda>item. fst item \<noteq> ''prompt'' \<and> fst item \<noteq> ''stream'') d) = Inl e"
  shows "generate self request = (Inl e, [])"
  using assms
  by (simp add: generate_def pop_def pop_default_eq dict_del_twice)

theorem generate_rejected_sampling_params_witness:
  "generate example_self
     (example_request
        [(''n'', JInt 0), (''prompt'', JStr ''Hello''), (''stream'', JBool True),
         (''temperature'', JFloat 0)] (\<lambda>n. False)) =
     (Inl (ValueError ''n must be at least 1''), [])"
proof -
  let ?d = "[(''n'', JInt 0), (''prompt'', JStr ''Hello''), (''stream'', JBool True),
             (''temperature'', JFloat 0)]"
  have 1: "request_json (example_request ?d (\<lambda>n. False)) = Inr (JObj ?d)" by simp
  have 2: "map_of ?d ''prompt'' = Some (JStr ''Hello'')" by simp
  have 3: "SamplingParams example_self
             (filter (\<lambda>item. fst item \<noteq> ''prompt'' \<and> fst item \<noteq> ''stream'') ?d) =
           Inl (ValueError ''n must be at least 1'')" by simp
  show ?thesis using generate_rejected_sampling_params [OF 1 2 3] by simp
qed

subsection \<open>The \<open>stream\<close> key\<close>

text \<open>
  Against claim C8 as stated: a \<open>stream\<close> that is not a boolean does not make the
  request fail. Here it is the list \<open>[false]\<close>, which Python counts as true: the request
  is served in streaming mode.
\<close>

theorem generate_stream_not_boolean:
  "generate example_self
     (example_request [(''prompt'', JStr ''Hello''), (''stream'', JArr [JBool False])]
        (\<lambda>n. False)) =
     (Inr (StreamingResponse
            (stream_results
               [\<lparr>prompt = ''Hello'', outputs = [\<lparr>out_text = '' wor''\<rparr>]\<rparr>,
                \<lparr>prompt = ''Hello'', outputs = [\<lparr>out_text = '' world''\<rparr>]\<rparr>])
            [[Engine_abort ''id0'']]),
      [Engine_generate (JStr ''Hello'') [] ''id0''])"
  by (simp add: generate_def pop_def pop_default_def dict_del_def example_engine_def
        abort_request_def Let_def del: stream_results.simps)

text \<open>
  Claim C8, amended. \<open>stream\<close> defaults to false: a body without the key is handled
  exactly as the same body with \<open>"stream": false\<close>. When the key is present its value,
  of whatever JSON type, is accepted and only its Python truth value is used: the handler
  does exactly what it does for the boolean of that truth value, so it never fails on
  account of \<open>stream\<close>.
\<close>

theorem generate_stream_truthiness:
  "(''stream'' \<notin> fst ` set d \<longrightarrow>
      generate self (request\<lparr>request_json := Inr (JObj d)\<rparr>) =
      generate self (request\<lparr>request_json := Inr (JObj (d @ [(''stream'', JBool False)]))\<rparr>))
   \<and> (''stream'' \<notin> fst ` set xs \<longrightarrow>
      generate self (request\<lparr>request_json := Inr (JObj (xs @ (''stream'', v) # ys))\<rparr>) =
      generate self
        (request\<lparr>request_json := Inr (JObj (xs @ (''stream'', JBool (truthy v)) # ys))\<rparr>))"
proof (intro conjI impI)
  assume absent: "''stream'' \<notin> fst ` set d"
  then have none: "map_of d ''stream'' = None" by (simp add: map_of_eq_None_iff)
  have flag: "map_of (d @ [(''stream'', JBool False)]) ''stream'' = Some (JBool False)"
    using absent by (rule map_of_stream_item)
  have key: "map_of (d @ [(''stream'', JBool False)]) ''prompt'' = map_of d ''prompt''"
    by (simp add: map_add_def split: option.splits)
  have rest: "dict_del ''stream'' (dict_del ''prompt'' (d @ [(''stream'', JBool False)])) =
              dict_del ''stream'' (dict_del ''prompt'' d)"
    by (simp add: dict_del_def)
  show "generate self (request\<lparr>request_json := Inr (JObj d)\<rparr>) =
      generate self (request\<lparr>request_json := Inr (JObj (d @ [(''stream'', JBool False)]))\<rparr>)"
    by (simp only: generate_body none flag key rest option.case truthy.simps)
next
  assume absent: "''stream'' \<notin> fst ` set xs"
  have flag: "map_of (xs @ (''stream'', w) # ys) ''stream'' = Some w" for w
    using absent by (rule map_of_stream_item)
  have key: "map_of (xs @ (''stream'', w) # ys) ''prompt'' = map_of (xs @ ys) ''prompt''" for w
    by (simp add: map_add_def split: option.splits)
  have rest: "dict_del ''stream'' (dict_del ''prompt'' (xs @ (''stream'', w) # ys)) =
              dict_del ''stream'' (dict_del ''prompt'' (xs @ ys))" for w
    by (simp add: dict_del_def)
  show "generate self (request\<lparr>request_json := Inr (JObj (xs @ (''stream'', v) # ys))\<rparr>) =
      generate self
        (request\<lparr>request_json := Inr (JObj (xs @ (''stream'', JBool (truthy v)) # ys))\<rparr>)"
    by (simp only: generate_body flag key rest option.case truthy.simps)
qed

theorem generate_stream_truthiness_witness:
  "generate example_self (example_request [(''prompt'', JStr ''Hello'')] (\<lambda>n. False)) =
   generate example_self
     (example_request [(''prompt'', JStr ''Hello''), (''stream'', JBool False)] (\<lambda>n. False))
   \<and> generate example_self
       (example_request [(''prompt'', JStr ''Hello''), (''stream'', JStr ''banana'')]
          (\<lambda>n. False)) =
     generate example_self
       (example_request [(''prompt'', JStr ''Hello''), (''stream'', JBool True)] (\<lambda>n. False))"
proof -
  have 1: "''stream'' \<notin> fst ` set [(''prompt'', JStr ''Hello'')]" by simp
  show ?thesis
    using 1 generate_stream_truthiness
      [of "[(''prompt'', JStr ''Hello'')]" example_self "example_request [] (\<lambda>n. False)"
          "[(''prompt'', JStr ''Hello'')]" "JStr ''banana''" "[]"]
    by (simp add: example_request_def)
qed

section \<open>The prompt in the response\<close>

text \<open>
  Claim C10. The prefix of every entry of \<open>text\<close> is the \<open>prompt\<close> field of the
  engine's output the entry is made from (each element's own in streaming mode, the last
  element's in the non-streaming case), whatever the \<open>prompt\<close> of the request body was:
  the body's prompt \<open>p\<close> reaches the engine and nothing else.
\<close>

theorem generate_prefix_is_output_prompt:
  assumes "request_json request = Inr (JObj d)"
    and "map_of d ''prompt'' = Some p"
    and "SamplingParams self (dict_del ''stream'' (dict_del ''prompt'' d)) = Inr sp"
    and "engine_generate self p sp (random_uuid self) = results"
  shows "(truthy (case map_of d ''stream'' of None \<Rightarrow> JBool False | Some v \<Rightarrow> v) \<longrightarrow>
            (\<exists>background.
               fst (generate self request) =
                 Inr (StreamingResponse
                        (map (\<lambda>ro. encode_utf8 (json_dumps
                                      [(''text'', map (\<lambda>output. prompt ro @ out_text output)
                                                    (outputs ro))])
                                   @ [0]) results)
                        background)))
       \<and> (\<not> truthy (case map_of d ''stream'' of None \<Rightarrow> JBool False | Some v \<Rightarrow> v)
            \<and> results \<noteq> [] \<and> (\<forall>n<length results. \<not> is_disconnected request n) \<longrightarrow>
            fst (generate self request) =
              Inr (JSONResponse
                     [(''text'', map (\<lambda>output. prompt (last results) @ out_text output)
                                   (outputs (last results)))]))"
proof (intro conjI impI)
  assume "truthy (case map_of d ''stream'' of None \<Rightarrow> JBool False | Some v \<Rightarrow> v)"
  then show "\<exists>background.
               fst (generate self request) =
                 Inr (StreamingResponse
                        (map (\<lambda>ro. encode_utf8 (json_dumps
                                      [(''text'', map (\<lambda>output. prompt ro @ out_text output)
                                                    (outputs ro))])
                                   @ [0]) results)
                        background)"
    by (simp add: generate_admitted [OF assms(1-3)] assms(4) stream_results_map)
next
  assume blocking: "\<not> truthy (case map_of d ''stream'' of None \<Rightarrow> JBool False | Some v \<Rightarrow> v)
            \<and> results \<noteq> [] \<and> (\<forall>n<length results. \<not> is_disconnected request n)"
  then have loop: "generate_loop (is_disconnected request) (random_uuid self) 0 None results =
     (Inr (Some (last results)),
      concat (map (\<lambda>ro. [Anext (Some ro), Is_disconnected False]) results) @ [Anext None])"
    using generate_loop_connected [of results "is_disconnected request" 0] by simp
  from blocking show "fst (generate self request) =
              Inr (JSONResponse
                     [(''text'', map (\<lambda>output. prompt (last results) @ out_text output)
                                   (outputs (last results)))])"
    by (simp add: generate_admitted [OF assms(1-3)] assms(4) loop)
qed

theorem generate_prefix_is_output_prompt_witness:
  "fst (generate (example_self\<lparr>engine_generate := \<lambda>p sampling_params request_id.
                     [\<lparr>prompt = ''<s>Hello'', outputs = [\<lparr>out_text = '' world''\<rparr>]\<rparr>]\<rparr>)
          (example_request [(''prompt'', JStr ''Hello'')] (\<lambda>n. False))) =
     Inr (JSONResponse [(''text'', [''<s>Hello world''])])
   \<and> (\<exists>background.
        fst (generate (example_self\<lparr>engine_generate := \<lambda>p sampling_params request_id.
                     [\<lparr>prompt = ''<s>Hello'', outputs = [\<lparr>out_text = '' world''\<rparr>]\<rparr>]\<rparr>)
          (example_request [(''prompt'', JStr ''Hello''), (''stream'', JBool True)]
             (\<lambda>n. False))) =
        Inr (StreamingResponse
               [encode_utf8 (json_dumps [(''text'', [''<s>Hello world''])]) @ [0]] background))"
proof -
  let ?self = "example_self\<lparr>engine_generate := \<lambda>p sampling_params request_id.
                     [\<lparr>prompt = ''<s>Hello'', outputs = [\<lparr>out_text = '' world''\<rparr>]\<rparr>]\<rparr>"
  let ?results = "[\<lparr>prompt = ''<s>Hello'', outputs = [\<lparr>out_text = '' world''\<rparr>]\<rparr>]"
  let ?d = "[(''prompt'', JStr ''Hello'')]"
  let ?d' = "[(''prompt'', JStr ''Hello''), (''stream'', JBool True)]"
  have 1: "request_json (example_request ?d (\<lambda>n. False)) = Inr (JObj ?d)" by simp
  have 2: "map_of ?d ''prompt'' = Some (JStr ''Hello'')" by simp
  have 3: "SamplingParams ?self (dict_del ''stream'' (dict_del ''prompt'' ?d)) = Inr []"
    by (simp add: dict_del_def example_self_def)
  have 4: "engine_generate ?self (JStr ''Hello'') [] (random_uuid ?self) = ?results" by simp
  have s1: "request_json (example_request ?d' (\<lambda>n. False)) = Inr (JObj ?d')" by simp
  have s2: "map_of ?d' ''prompt'' = Some (JStr ''Hello'')" by simp
  have s3: "SamplingParams ?self (dict_del ''stream'' (dict_del ''prompt'' ?d')) = Inr []"
    by (simp add: dict_del_def example_self_def)
  show ?thesis
    using generate_prefix_is_output_prompt [OF 1 2 3 4]
          generate_prefix_is_output_prompt [OF s1 s2 s3 4]
    by simp
qed

section \<open>Cancellation\<close>

text \<open>
  Claim C9. Cancelling a request any number of times never raises; no cancellation leaves
  the engine as it was, and one or many leave it as a single one does. On a request the
  engine is not (or no longer) generating for, cancelling changes nothing.
\<close>

theorem cancel_idempotent:
  "cancel_times n request_id running =
     Inr (if n = 0 then running else running - {request_id})
   \<and> cancel_times n request_id (running - {request_id}) = Inr (running - {request_id})"
proof
  show first: "cancel_times n request_id running =
     Inr (if n = 0 then running else running - {request_id})" for running
    by (induction n arbitrary: running) (simp_all add: engine_abort_def)
  show "cancel_times n request_id (running - {request_id}) = Inr (running - {request_id})"
    by (simp add: first)
qed

end
